theory Spec2Isabelle
  imports Complex_Main
begin

section \<open>The numeric engine as the notebooks use it\<close>

text \<open>
  The notebooks call a tensor library for every numeric primitive. Scalars are modelled
  as real numbers, so rounding, overflow and the tolerance that goes with them are
  outside the model. A batch of activations is a list of rows (one row per example); a
  learned parameter is a tensor that carries its shape next to its entries in row-major
  order, as the library stores it (\<open>length entries = prod_list shape\<close> for every
  tensor the library allocates).
\<close>

type_synonym batch = "real list list"

datatype tensor = Tensor (shape: "nat list") (entries: "real list")

datatype param_kind = Weight | Bias

text \<open>
  Keys of a state dict: \<open>Hidden i Weight\<close> stands for \<^verbatim>\<open>hidden_layers.i.weight\<close>,
  \<open>Output Bias\<close> for \<^verbatim>\<open>output.bias\<close>.
\<close>

datatype param_key = Hidden nat param_kind | Output param_kind

datatype load_msg =
    Missing_keys "param_key list"
  | Unexpected_keys "param_key list"
  | Size_mismatch param_key "nat list" "nat list"

text \<open>
  Everything that raises in the notebooks or in the library calls they make.
  \<open>Size_mismatch k recorded target\<close> is the line
  \<^verbatim>\<open>size mismatch for k: copying a param with shape recorded from checkpoint, the shape in current model is target\<close>
  of the \<^verbatim>\<open>RuntimeError\<close> that \<^verbatim>\<open>load_state_dict\<close> raises.
\<close>

datatype error =
    ConfigurationError
  | RuntimeError "load_msg list"
  | ShapeError
  | ValueError
  | IndexError
  | ZeroDivisionError
  | FileNotFoundError

text \<open>\<^verbatim>\<open>torch.randn\<close>-style allocation: the shape is the one asked for, the entries come
  from the library's random source.\<close>

definition randn :: "(nat \<Rightarrow> real) \<Rightarrow> nat list \<Rightarrow> tensor" where
  "randn rng s = Tensor s (map rng [0..<prod_list s])"

record nn_linear =
  in_features :: nat
  out_features :: nat
  weight :: tensor
  bias :: tensor

text \<open>\<^verbatim>\<open>nn.Linear(in_features, out_features)\<close>: the weight has shape
  \<open>(out_features, in_features)\<close>, the bias \<open>(out_features)\<close>.\<close>

definition nn_Linear :: "(nat \<Rightarrow> real) \<Rightarrow> nat \<Rightarrow> nat \<Rightarrow> nn_linear" where
  "nn_Linear rng inn out =
     \<lparr>in_features = inn, out_features = out,
      weight = randn rng [out, inn], bias = randn rng [out]\<rparr>"

definition dot :: "real list \<Rightarrow> real list \<Rightarrow> real" where
  "dot u v = sum_list (map2 (*) u v)"

text \<open>\<^verbatim>\<open>F.linear(input, weight, bias)\<close>: \<open>input @ weight.T + bias\<close>; the library refuses
  operands whose shapes do not fit.\<close>

definition F_linear :: "batch \<Rightarrow> tensor \<Rightarrow> tensor \<Rightarrow> error + batch" where
  "F_linear input W b =
     (case shape W of
        [out, inn] \<Rightarrow>
          if shape b \<noteq> [out] \<or> (\<exists>row \<in> set input. length row \<noteq> inn) then Inl ShapeError
          else Inr (map (\<lambda>row. map (\<lambda>i. dot (take inn (drop (i * inn) (entries W))) row
                                          + entries b ! i) [0..<out]) input)
      | _ \<Rightarrow> Inl ShapeError)"

definition F_relu :: "batch \<Rightarrow> batch" where
  "F_relu x = map (map (\<lambda>v. max 0 v)) x"

text \<open>Log-softmax of one vector: \<open>log (exp x\<^sub>i / \<Sum>\<^sub>j exp x\<^sub>j)\<close>.\<close>

definition log_softmax :: "real list \<Rightarrow> real list" where
  "log_softmax x = map (\<lambda>v. ln (exp v / sum_list (map exp x))) x"

text \<open>
  On a two-dimensional batch, \<open>dim = 1\<close> normalises across the columns of each row and
  \<open>dim = 0\<close> across the rows of each column; negative dimensions count from the end.
\<close>

definition F_log_softmax :: "batch \<Rightarrow> int \<Rightarrow> error + batch" where
  "F_log_softmax x d =
     (if d = 1 \<or> d = - 1 then Inr (map log_softmax x)
      else if d = 0 \<or> d = - 2 then Inr (transpose (map log_softmax (transpose x)))
      else Inl IndexError)"

subsection \<open>Loss functions\<close>

text \<open>
  Both criteria are used with their defaults: mean reduction and \<open>ignore_index = -100\<close>.
  The mean is taken over the examples that are not ignored; with none left the library
  returns not-a-number.
\<close>

datatype loss = Loss real | NaN

definition ignore_index :: int where
  "ignore_index = - 100"

fun loss_terms :: "(real list \<Rightarrow> nat \<Rightarrow> real) \<Rightarrow> (real list \<times> int) list \<Rightarrow> error + real list" where
  "loss_terms f [] = Inr []"
| "loss_terms f ((row, y) # rest) =
     (if y = ignore_index then loss_terms f rest
      else if 0 \<le> y \<and> y < int (length row) then
        (case loss_terms f rest of
           Inl e \<Rightarrow> Inl e
         | Inr ts \<Rightarrow> Inr (f row (nat y) # ts))
      else Inl IndexError)"

definition mean_loss :: "(real list \<Rightarrow> nat \<Rightarrow> real) \<Rightarrow> batch \<Rightarrow> int list \<Rightarrow> error + loss" where
  "mean_loss f input target =
     (if length input \<noteq> length target then Inl ValueError
      else case loss_terms f (zip input target) of
             Inl e \<Rightarrow> Inl e
           | Inr ts \<Rightarrow> Inr (if ts = [] then NaN else Loss (sum_list ts / real (length ts))))"

text \<open>\<^verbatim>\<open>nn.NLLLoss()\<close>: the term of example \<open>n\<close> is \<open>- input[n][target[n]]\<close>.\<close>

definition NLLLoss :: "batch \<Rightarrow> int list \<Rightarrow> error + loss" where
  "NLLLoss input target = mean_loss (\<lambda>row y. - (row ! y)) input target"

text \<open>\<^verbatim>\<open>nn.CrossEntropyLoss()\<close> on raw scores: the term of example \<open>n\<close> is
  \<open>- log (exp x[n][y] / \<Sum>\<^sub>c exp x[n][c])\<close>.\<close>

definition CrossEntropyLoss :: "batch \<Rightarrow> int list \<Rightarrow> error + loss" where
  "CrossEntropyLoss input target =
     mean_loss (\<lambda>row y. - ln (exp (row ! y) / sum_list (map exp row))) input target"

section \<open>Part 3: sequential models and the training loop\<close>

datatype module = Linear nn_linear | ReLU | LogSoftmax int

fun module_forward :: "module \<Rightarrow> batch \<Rightarrow> error + batch" where
  "module_forward (Linear l) x = F_linear x (weight l) (bias l)"
| "module_forward ReLU x = Inr (F_relu x)"
| "module_forward (LogSoftmax d) x = F_log_softmax x d"

text \<open>\<^verbatim>\<open>nn.Sequential\<close>: the modules are applied in order; an error ends the pass.\<close>

fun Sequential :: "module list \<Rightarrow> batch \<Rightarrow> error + batch" where
  "Sequential [] x = Inr x"
| "Sequential (m # ms) x =
     (case module_forward m x of
        Inl e \<Rightarrow> Inl e
      | Inr y \<Rightarrow> Sequential ms y)"

text \<open>
  The two models of the notebook, over the three affine layers they allocate
  (\<open>784 \<rightarrow> 128 \<rightarrow> 64 \<rightarrow> 10\<close>): the first ends in the plain affine layer and is paired with
  \<open>CrossEntropyLoss\<close>, the second appends \<open>LogSoftmax(dim=1)\<close> and is paired with
  \<open>NLLLoss\<close>.
\<close>

definition model_logits :: "nn_linear \<Rightarrow> nn_linear \<Rightarrow> nn_linear \<Rightarrow> module list" where
  "model_logits l1 l2 l3 = [Linear l1, ReLU, Linear l2, ReLU, Linear l3]"

definition model_logps :: "nn_linear \<Rightarrow> nn_linear \<Rightarrow> nn_linear \<Rightarrow> module list" where
  "model_logps l1 l2 l3 = [Linear l1, ReLU, Linear l2, ReLU, Linear l3, LogSoftmax 1]"

text \<open>The shapes of a layer allocated as \<^verbatim>\<open>nn.Linear(inn, out)\<close>; updates of the
  parameters keep them.\<close>

definition has_shape :: "nn_linear \<Rightarrow> nat \<Rightarrow> nat \<Rightarrow> bool" where
  "has_shape l inn out \<longleftrightarrow> shape (weight l) = [out, inn] \<and> shape (bias l) = [out]"

subsection \<open>The training loop\<close>

text \<open>
  One pass of the loop body (clear the gradients, forward pass, criterion, backward pass,
  optimizer step) is the engine's business: \<open>step s b\<close> returns the state of model and
  optimizer after the update together with \<^verbatim>\<open>loss.item()\<close>, or the error the engine
  raised. The loop itself threads the state through the batches and adds the losses up
  in \<open>running_loss\<close>.
\<close>

type_synonym ('s, 'b) step = "'s \<Rightarrow> 'b \<Rightarrow> error + 's \<times> real"

fun train_batches :: "('s, 'b) step \<Rightarrow> 's \<Rightarrow> 'b list \<Rightarrow> real \<Rightarrow> error + 's \<times> real" where
  "train_batches step s [] running_loss = Inr (s, running_loss)"
| "train_batches step s (b # bs) running_loss =
     (case step s b of
        Inl e \<Rightarrow> Inl e
      | Inr (s', l) \<Rightarrow> train_batches step s' bs (running_loss + l))"

definition truediv :: "real \<Rightarrow> nat \<Rightarrow> error + real" where
  "truediv a n = (if n = 0 then Inl ZeroDivisionError else Inr (a / real n))"

text \<open>One epoch: \<open>running_loss = 0\<close>, the pass over \<open>trainloader\<close>, then the \<open>else\<close>
  branch of the \<open>for\<close> (always taken, the body has no \<open>break\<close>) prints
  \<open>running_loss / len(trainloader)\<close>.\<close>

definition train_epoch :: "('s, 'b) step \<Rightarrow> 's \<Rightarrow> 'b list \<Rightarrow> error + 's \<times> real" where
  "train_epoch step s trainloader =
     (case train_batches step s trainloader 0 of
        Inl e \<Rightarrow> Inl e
      | Inr (s', running_loss) \<Rightarrow>
          (case truediv running_loss (length trainloader) of
             Inl e \<Rightarrow> Inl e
           | Inr avg \<Rightarrow> Inr (s', avg)))"

text \<open>\<open>for e in range(n)\<close>: the result is the list of values printed so far and either
  the error that ended the loop or the final state.\<close>

fun train_loop :: "('s, 'b) step \<Rightarrow> 's \<Rightarrow> 'b list \<Rightarrow> nat \<Rightarrow> real list \<times> (error + 's)" where
  "train_loop step s trainloader 0 = ([], Inr s)"
| "train_loop step s trainloader (Suc n) =
     (case train_epoch step s trainloader of
        Inl e \<Rightarrow> ([], Inl e)
      | Inr (s', avg) \<Rightarrow>
          (case train_loop step s' trainloader n of
             (printed, r) \<Rightarrow> (avg # printed, r)))"

definition epochs :: nat where
  "epochs = 5"

definition training_cell :: "('s, 'b) step \<Rightarrow> 's \<Rightarrow> 'b list \<Rightarrow> real list \<times> (error + 's)" where
  "training_cell step s trainloader = train_loop step s trainloader epochs"



section \<open>Part 6: the classifier and its checkpoints\<close>

record network =
  hidden_layers :: "nn_linear list"
  output_layer :: nn_linear
  dropout :: real
  training :: bool

text \<open>All affine layers in the order of the forward pass.\<close>

definition layers :: "network \<Rightarrow> nn_linear list" where
  "layers m = hidden_layers m @ [output_layer m]"

text \<open>Modelled from the spec: the default \<open>drop_p=0.5\<close> of the classifier's constructor
  (the notebook prints \<open>Dropout(p=0.5)\<close> for a classifier built without \<open>drop_p\<close>).\<close>

definition default_drop_p :: real where
  "default_drop_p = 0.5"

text \<open>
  Modelled from the spec: the constructor of the classifier (\<^verbatim>\<open>fc_model.Network\<close>; the
  module \<^verbatim>\<open>fc_model\<close> is imported by the notebook but is not among the sources).
  Given \<open>(input_size, output_size, hidden_sizes, drop_p=0.5)\<close> it allocates one affine
  layer per consecutive pair in the sequence \<open>[input_size] + hidden_sizes + [output_size]\<close>,
  fails with a \<open>ConfigurationError\<close> if \<open>input_size\<close> or \<open>output_size\<close> is not a positive
  integer or if any entry of \<open>hidden_sizes\<close> is not a positive integer, and starts in
  training mode. The split into \<open>hidden_layers\<close>, \<open>output\<close> (here \<open>output_layer\<close>) and \<open>dropout\<close> is
  the one the notebook prints for \<open>Network(784, 10, [512, 256, 128])\<close>.
\<close>

definition Network :: "(nat \<Rightarrow> real) \<Rightarrow> int \<Rightarrow> int \<Rightarrow> int list \<Rightarrow> real \<Rightarrow> error + network" where
  "Network rng input_size output_size hidden_sizes drop_p =
     (if input_size \<le> 0 \<or> output_size \<le> 0 \<or> (\<exists>h \<in> set hidden_sizes. h \<le> 0)
      then Inl ConfigurationError
      else let sizes = map nat ([input_size] @ hidden_sizes @ [output_size]);
               ls = map (\<lambda>(a, b). nn_Linear rng a b) (zip sizes (tl sizes))
           in Inr \<lparr>hidden_layers = butlast ls, output_layer = last ls,
                   dropout = drop_p, training = True\<rparr>)"

text \<open>\<^verbatim>\<open>F.dropout(x, p, training)\<close>: in training mode each activation is kept or zeroed by
  the engine's random draw \<open>keep\<close> (by example and unit) and the kept ones are rescaled
  by \<open>1 / (1 - p)\<close>; in evaluation mode it is the identity.\<close>

definition F_dropout :: "batch \<Rightarrow> real \<Rightarrow> bool \<Rightarrow> (nat \<Rightarrow> nat \<Rightarrow> bool) \<Rightarrow> batch" where
  "F_dropout x p tr keep =
     (if tr then map (\<lambda>(n, row). map (\<lambda>(j, v). if keep n j then v / (1 - p) else 0)
                                     (enumerate 0 row)) (enumerate 0 x)
      else x)"

text \<open>
  Modelled from the spec: the forward pass of the classifier (\<^verbatim>\<open>fc_model.Network.forward\<close>,
  not among the sources). For each hidden layer in order: its affine transform, the
  rectifier, then dropout (training mode only); after the last hidden layer the final
  affine transform and the log-softmax across the class dimension. \<open>keep k\<close> is the
  random draw of the dropout after hidden layer \<open>k\<close>.
\<close>

fun hidden_forward ::
  "nn_linear list \<Rightarrow> nat \<Rightarrow> real \<Rightarrow> bool \<Rightarrow> (nat \<Rightarrow> nat \<Rightarrow> nat \<Rightarrow> bool) \<Rightarrow> batch \<Rightarrow> error + batch" where
  "hidden_forward [] k p tr keep x = Inr x"
| "hidden_forward (l # ls) k p tr keep x =
     (case F_linear x (weight l) (bias l) of
        Inl e \<Rightarrow> Inl e
      | Inr y \<Rightarrow> hidden_forward ls (Suc k) p tr keep (F_dropout (F_relu y) p tr (keep k)))"

definition forward :: "network \<Rightarrow> (nat \<Rightarrow> nat \<Rightarrow> nat \<Rightarrow> bool) \<Rightarrow> batch \<Rightarrow> error + batch" where
  "forward m keep x =
     (case hidden_forward (hidden_layers m) 0 (dropout m) (training m) keep x of
        Inl e \<Rightarrow> Inl e
      | Inr h \<Rightarrow>
          (case F_linear h (weight (output_layer m)) (bias (output_layer m)) of
             Inl e \<Rightarrow> Inl e
           | Inr z \<Rightarrow> F_log_softmax z 1))"

text \<open>\<^verbatim>\<open>model.eval()\<close>.\<close>

definition eval_mode :: "network \<Rightarrow> network" where
  "eval_mode m = m\<lparr>training := False\<rparr>"

subsection \<open>State dicts\<close>

type_synonym state = "(param_key \<times> tensor) list"

text \<open>The parameter of a layer by its kind.\<close>

fun param :: "param_kind \<Rightarrow> nn_linear \<Rightarrow> tensor" where
  "param Weight l = weight l"
| "param Bias l = bias l"

definition linear_state :: "(param_kind \<Rightarrow> param_key) \<Rightarrow> nn_linear \<Rightarrow> state" where
  "linear_state pre l = [(pre Weight, weight l), (pre Bias, bias l)]"

fun hidden_state :: "nat \<Rightarrow> nn_linear list \<Rightarrow> state" where
  "hidden_state i [] = []"
| "hidden_state i (l # ls) = linear_state (Hidden i) l @ hidden_state (Suc i) ls"

text \<open>\<^verbatim>\<open>model.state_dict()\<close>: the keys in the order the notebook prints them.\<close>

definition state_dict :: "network \<Rightarrow> state" where
  "state_dict m = hidden_state 0 (hidden_layers m) @ linear_state Output (output_layer m)"

text \<open>
  \<^verbatim>\<open>model.load_state_dict(state_dict)\<close> (strict): a recorded parameter is copied into
  the model when its shape is the model's; every key whose shapes differ adds a
  \<open>Size_mismatch\<close> line, keys the record lacks and keys the model lacks are listed in
  front of these, and a \<^verbatim>\<open>RuntimeError\<close> with all the lines is raised if there is any.
  The model is updated in place, so the result is the model after the call together
  with the outcome.
\<close>

definition load_param :: "state \<Rightarrow> param_key \<Rightarrow> tensor \<Rightarrow> tensor" where
  "load_param sd k p =
     (case map_of sd k of
        None \<Rightarrow> p
      | Some t \<Rightarrow> if shape t \<noteq> shape p then p else t)"

definition load_linear :: "state \<Rightarrow> (param_kind \<Rightarrow> param_key) \<Rightarrow> nn_linear \<Rightarrow> nn_linear" where
  "load_linear sd pre l =
     l\<lparr>weight := load_param sd (pre Weight) (weight l),
       bias := load_param sd (pre Bias) (bias l)\<rparr>"

fun load_hidden :: "state \<Rightarrow> nat \<Rightarrow> nn_linear list \<Rightarrow> nn_linear list" where
  "load_hidden sd i [] = []"
| "load_hidden sd i (l # ls) = load_linear sd (Hidden i) l # load_hidden sd (Suc i) ls"

definition size_mismatches :: "state \<Rightarrow> state \<Rightarrow> load_msg list" where
  "size_mismatches own sd =
     concat (map (\<lambda>(k, p). case map_of sd k of
                              None \<Rightarrow> []
                            | Some t \<Rightarrow> if shape t \<noteq> shape p
                                        then [Size_mismatch k (shape t) (shape p)] else [])
                 own)"

definition error_msgs :: "network \<Rightarrow> state \<Rightarrow> load_msg list" where
  "error_msgs m sd =
     (let own = state_dict m;
          missing = filter (\<lambda>k. map_of sd k = None) (map fst own);
          unexpected = filter (\<lambda>k. k \<notin> set (map fst own)) (map fst sd)
      in (if missing = [] then [] else [Missing_keys missing])
         @ (if unexpected = [] then [] else [Unexpected_keys unexpected])
         @ size_mismatches own sd)"

definition load_state_dict :: "network \<Rightarrow> state \<Rightarrow> network \<times> (error + unit)" where
  "load_state_dict m sd =
     (m\<lparr>hidden_layers := load_hidden sd 0 (hidden_layers m),
        output_layer := load_linear sd Output (output_layer m)\<rparr>,
      if error_msgs m sd = [] then Inr () else Inl (RuntimeError (error_msgs m sd)))"

subsection \<open>Checkpoints\<close>

text \<open>The dictionary the notebook saves, with its four keys.\<close>

record checkpoint =
  ckpt_input_size :: int
  ckpt_output_size :: int
  ckpt_hidden_layers :: "int list"
  ckpt_state_dict :: state

text \<open>\<^verbatim>\<open>torch.save\<close> and \<^verbatim>\<open>torch.load\<close> on a store of named files.\<close>

type_synonym storage = "string \<rightharpoonup> checkpoint"

definition torch_save :: "checkpoint \<Rightarrow> string \<Rightarrow> storage \<Rightarrow> storage" where
  "torch_save obj f fs = fs(f \<mapsto> obj)"

definition torch_load :: "storage \<Rightarrow> string \<Rightarrow> error + checkpoint" where
  "torch_load fs f = (case fs f of None \<Rightarrow> Inl FileNotFoundError | Some obj \<Rightarrow> Inr obj)"

text \<open>
  The cell that builds and saves the checkpoint of \<open>model\<close>. The two sizes are the
  literals of the cell; the hidden sizes are read off the hidden layers; the file name
  is the cell's.
\<close>

definition save_checkpoint :: "network \<Rightarrow> storage \<Rightarrow> storage" where
  "save_checkpoint model fs =
     (let checkpoint = \<lparr>ckpt_input_size = 784,
                         ckpt_output_size = 10,
                         ckpt_hidden_layers = map (\<lambda>each. int (out_features each)) (hidden_layers model),
                         ckpt_state_dict = state_dict model\<rparr>
      in torch_save checkpoint ''checkpoint.pth'' fs)"

definition load_checkpoint :: "(nat \<Rightarrow> real) \<Rightarrow> storage \<Rightarrow> string \<Rightarrow> error + network" where
  "load_checkpoint rng fs filepath =
     (case torch_load fs filepath of
        Inl e \<Rightarrow> Inl e
      | Inr checkpoint \<Rightarrow>
          (case Network rng (ckpt_input_size checkpoint) (ckpt_output_size checkpoint)
                  (ckpt_hidden_layers checkpoint) default_drop_p of
             Inl e \<Rightarrow> Inl e
           | Inr model \<Rightarrow>
               (case load_state_dict model (ckpt_state_dict checkpoint) of
                  (model', Inl e) \<Rightarrow> Inl e
                | (model', Inr _) \<Rightarrow> Inr model')))"

subsection \<open>Well-formed classifiers\<close>

text \<open>
  What construction establishes and no update of the parameters changes: every layer's
  tensors have the shapes of its features, the sizes are positive, and each layer takes
  what the layer before it produces.
\<close>

fun chained :: "nn_linear list \<Rightarrow> bool" where
  "chained (l # l' # ls) = (in_features l' = out_features l \<and> chained (l' # ls))"
| "chained _ = True"

definition wf_network :: "network \<Rightarrow> bool" where
  "wf_network m \<longleftrightarrow>
     list_all (\<lambda>l. has_shape l (in_features l) (out_features l)
                  \<and> 0 < in_features l \<and> 0 < out_features l) (layers m)
     \<and> chained (layers m)"

definition net_input_size :: "network \<Rightarrow> nat" where
  "net_input_size m = in_features (hd (layers m))"

definition net_output_size :: "network \<Rightarrow> nat" where
  "net_output_size m = out_features (output_layer m)"

definition net_hidden_sizes :: "network \<Rightarrow> nat list" where
  "net_hidden_sizes m = map out_features (hidden_layers m)"

subsection \<open>The recorded run of \<open>fc_model.train\<close>\<close>



section \<open>Properties\<close>

lemma sum_list_exp_nonneg: "0 \<le> sum_list (map exp (x :: real list))"
  by (rule sum_list_nonneg) auto

lemma sum_list_exp_pos: "x \<noteq> [] \<Longrightarrow> 0 < sum_list (map exp (x :: real list))"
  by (cases x) (simp_all add: add_pos_nonneg sum_list_exp_nonneg)

lemma exp_log_softmax:
  assumes "x \<noteq> []"
  shows "map exp (log_softmax x) = map (\<lambda>v. exp v / sum_list (map exp x)) x"
proof -
  have "0 < sum_list (map exp x)" using assms by (rule sum_list_exp_pos)
  then have "\<And>v. exp (ln (exp v / sum_list (map exp x))) = exp v / sum_list (map exp x)"
    by simp
  then show ?thesis by (simp add: log_softmax_def)
qed

lemma sum_list_divide: "sum_list (map (\<lambda>v. f v / (c::real)) xs) = sum_list (map f xs) / c"
  by (induction xs) (simp_all add: add_divide_distrib)

lemma log_softmax_normalised:
  assumes "x \<noteq> []"
  shows "sum_list (map exp (log_softmax x)) = 1"
proof -
  have pos: "0 < sum_list (map exp x)" using assms by (rule sum_list_exp_pos)
  have "sum_list (map exp (log_softmax x)) = sum_list (map exp x) / sum_list (map exp x)"
    by (simp add: exp_log_softmax [OF assms] sum_list_divide)
  with pos show ?thesis by simp
qed

lemma F_linear_Inr:
  assumes "F_linear x W b = Inr y" and "shape W = [out, inn]"
  shows "length y = length x \<and> (\<forall>row \<in> set y. length row = out)"
  using assms by (auto simp: F_linear_def split: if_splits)

lemma F_linear_total:
  assumes "shape W = [out, inn]" and "shape b = [out]" and "\<forall>row \<in> set x. length row = inn"
  shows "\<exists>y. F_linear x W b = Inr y"
  using assms by (simp add: F_linear_def)

lemma F_relu_length: "length (F_relu x) = length x" "row \<in> set (F_relu x) \<Longrightarrow> \<exists>r \<in> set x. length row = length r"
  by (auto simp: F_relu_def)

lemma length_log_softmax: "length (log_softmax x) = length x"
  by (simp add: log_softmax_def)

lemma log_softmax_nth: "y < length x \<Longrightarrow> log_softmax x ! y = ln (exp (x ! y) / sum_list (map exp x))"
  by (simp add: log_softmax_def)

lemma log_softmax_target:
  assumes "0 \<le> y" and "y < int (length x)"
  shows "log_softmax x ! nat y = ln (exp (x ! nat y) / sum_list (map exp x))"
proof -
  from assms have "nat y < length x" by linarith
  then show ?thesis by (rule log_softmax_nth)
qed

lemma loss_terms_log_softmax:
  "loss_terms (\<lambda>row y. - (row ! y)) (zip (map log_softmax x) t)
   = loss_terms (\<lambda>row y. - ln (exp (row ! y) / sum_list (map exp row))) (zip x t)"
proof (induction x arbitrary: t)
  case Nil
  then show ?case by simp
next
  case (Cons row x)
  show ?case
  proof (cases t)
    case Nil
    then show ?thesis by simp
  next
    case (Cons y ys)
    then show ?thesis
      using Cons.IH [of ys]
      by (auto simp: length_log_softmax log_softmax_target split: sum.splits)
  qed
qed

lemma cross_entropy_nll:
  "CrossEntropyLoss logits labels = NLLLoss (map log_softmax logits) labels"
  by (simp add: CrossEntropyLoss_def NLLLoss_def mean_loss_def loss_terms_log_softmax)

lemma Sequential_append:
  "Sequential (ms @ ns) x = (case Sequential ms x of Inl e \<Rightarrow> Inl e | Inr y \<Rightarrow> Sequential ns y)"
  by (induction ms arbitrary: x) (auto split: sum.splits)

lemma model_logps_logits: "model_logps l1 l2 l3 = model_logits l1 l2 l3 @ [LogSoftmax 1]"
  by (simp add: model_logps_def model_logits_def)

lemma pipelines:
  "(case Sequential (model_logits l1 l2 l3) images of Inl e \<Rightarrow> Inl e | Inr logits \<Rightarrow> CrossEntropyLoss logits labels)
   = (case Sequential (model_logps l1 l2 l3) images of Inl e \<Rightarrow> Inl e | Inr logps \<Rightarrow> NLLLoss logps labels)"
  by (simp add: model_logps_logits Sequential_append F_log_softmax_def cross_entropy_nll split: sum.splits)




lemma train_epoch_empty: "train_epoch step s [] = Inl ZeroDivisionError"
  by (simp add: train_epoch_def truediv_def)


lemma shape_randn: "shape (randn rng s) = s"
  by (simp add: randn_def)


lemma F_relu_rows: "\<forall>row \<in> set x. length row = n \<Longrightarrow> \<forall>row \<in> set (F_relu x). length row = n"
  by (auto simp: F_relu_def)

lemma linear_relu_step:
  assumes "has_shape l inn out" and "\<forall>row \<in> set x. length row = inn"
  shows "\<exists>y. F_linear x (weight l) (bias l) = Inr y \<and> length y = length x
             \<and> (\<forall>row \<in> set y. length row = out)"
proof -
  from assms obtain y where y: "F_linear x (weight l) (bias l) = Inr y"
    using F_linear_total [of "weight l" out inn "bias l" x] by (auto simp: has_shape_def)
  with assms(1) F_linear_Inr [of x "weight l" "bias l" y out inn] show ?thesis
    by (simp add: has_shape_def)
qed



text \<open>
  Claim C9. For every batch of raw scores and every batch of integer labels, the
  cross-entropy loss on the scores is the negative-log-likelihood loss on their
  log-softmax, errors and the not-a-number case included; hence the two pipelines of
  the notebook (plain affine output with \<open>CrossEntropyLoss\<close>, log-softmax output with
  \<open>NLLLoss\<close>) compute the same loss from the same layers, images and labels.
\<close>

theorem cross_entropy_equals_nll_of_log_softmax:
  "CrossEntropyLoss logits labels
     = (case F_log_softmax logits 1 of Inl e \<Rightarrow> Inl e | Inr logps \<Rightarrow> NLLLoss logps labels)
   \<and> (case Sequential (model_logits l1 l2 l3) images of
         Inl e \<Rightarrow> Inl e | Inr scores \<Rightarrow> CrossEntropyLoss scores labels)
     = (case Sequential (model_logps l1 l2 l3) images of
         Inl e \<Rightarrow> Inl e | Inr logps \<Rightarrow> NLLLoss logps labels)"
  by (simp add: pipelines cross_entropy_nll F_log_softmax_def)

theorem cross_entropy_equals_nll_of_log_softmax_witness:
  "CrossEntropyLoss [[0, 0]] [1] = Inr (Loss (ln 2))
   \<and> NLLLoss (map log_softmax [[0, 0]]) [1] = Inr (Loss (ln 2))"
proof -
  have "ln (1 / 2 :: real) = - ln 2" by (simp add: ln_div)
  then have ce: "CrossEntropyLoss [[0, 0]] [1] = Inr (Loss (ln 2))"
    by (simp add: CrossEntropyLoss_def mean_loss_def ignore_index_def)
  with cross_entropy_equals_nll_of_log_softmax [of "[[0, 0]]" "[1]"] show ?thesis
    by (simp add: F_log_softmax_def)
qed








text \<open>
  Claim C10. The division of the report is unguarded: it yields a value exactly when
  the sequence of training batches is non-empty. On an empty sequence an epoch, from
  any state, ends in \<open>ZeroDivisionError\<close>, and so does the loop as soon as it has an
  epoch to run (the error of the first epoch ends the loop, nothing is printed).
\<close>

theorem empty_trainloader_division_by_zero:
  assumes "0 < n"
  shows "train_epoch step s [] = Inl ZeroDivisionError
       \<and> train_loop step s [] n = ([], Inl ZeroDivisionError)
       \<and> training_cell step s [] = ([], Inl ZeroDivisionError)
       \<and> (\<exists>avg. truediv running_loss (length trainloader) = Inr avg) = (trainloader \<noteq> [])"
proof -
  from assms obtain m where "n = Suc m" by (cases n) auto
  then show ?thesis
    by (auto simp: train_epoch_empty truediv_def training_cell_def epochs_def eval_nat_numeral)
qed

theorem empty_trainloader_division_by_zero_witness:
  "(0::nat) < 5
   \<and> train_epoch (\<lambda>s b. Inr (s, b)) (0::nat) [] = Inl ZeroDivisionError
   \<and> train_loop (\<lambda>s b. Inr (s, b)) (0::nat) [] 5 = ([], Inl ZeroDivisionError)"
  using empty_trainloader_division_by_zero [of 5 "\<lambda>s b. Inr (s, b)" "0::nat" 0 "[]"]
  by simp

lemma layers_nonempty: "layers m \<noteq> []"
  by (simp add: layers_def)

lemma Network_Inr:
  assumes "0 < input_size" and "0 < output_size" and "\<forall>h \<in> set hidden_sizes. 0 < h"
  shows "\<exists>m. Network rng input_size output_size hidden_sizes drop_p = Inr m
           \<and> layers m = map (\<lambda>(a, b). nn_Linear rng a b)
                (zip (map nat ([input_size] @ hidden_sizes @ [output_size]))
                     (tl (map nat ([input_size] @ hidden_sizes @ [output_size]))))
           \<and> dropout m = drop_p \<and> training m = True"
proof -
  let ?sizes = "map nat ([input_size] @ hidden_sizes @ [output_size])"
  let ?ls = "map (\<lambda>(a, b). nn_Linear rng a b) (zip ?sizes (tl ?sizes))"
  have "?ls \<noteq> []" by simp
  then have "butlast ?ls @ [last ?ls] = ?ls" by (rule append_butlast_last_id)
  moreover from assms have "\<not> (input_size \<le> 0 \<or> output_size \<le> 0 \<or> (\<exists>h \<in> set hidden_sizes. h \<le> 0))"
    by auto
  ultimately show ?thesis
    by (simp add: Network_def layers_def Let_def del: butlast.simps last.simps)
qed

lemma Network_Inl:
  "Network rng input_size output_size hidden_sizes drop_p = Inl e \<longleftrightarrow>
     e = ConfigurationError \<and> (input_size \<le> 0 \<or> output_size \<le> 0 \<or> (\<exists>h \<in> set hidden_sizes. h \<le> 0))"
  by (auto simp: Network_def Let_def)


lemma map_of_linear_state_Hidden:
  "map_of (linear_state (Hidden i) l @ rest) (Hidden j kd) =
     (if j = i then Some (param kd l)
      else map_of rest (Hidden j kd))"
  by (cases kd) (simp_all add: linear_state_def del: map_of_append)

lemma map_of_hidden_state:
  "map_of (hidden_state i ls @ rest) (Hidden j kd) =
     (if i \<le> j \<and> j < i + length ls
      then Some (param kd (ls ! (j - i)))
      else map_of rest (Hidden j kd))"
proof (induction ls arbitrary: i)
  case Nil
  then show ?case by auto
next
  case (Cons l ls)
  show ?case
  proof (cases "j = i")
    case True
    then show ?thesis by (simp add: map_of_linear_state_Hidden del: map_of_append)
  next
    case False
    have "(l # ls) ! (j - i) = ls ! (j - Suc i)" if "i < j"
      using that by (simp add: nth_Cons')
    with False show ?thesis
      using Cons.IH [of "Suc i"] by (auto simp: map_of_linear_state_Hidden simp del: map_of_append)
  qed
qed

lemma map_of_hidden_state_Output:
  "map_of (hidden_state i ls @ rest) (Output kd) = map_of rest (Output kd)"
  by (induction ls arbitrary: i) (simp_all add: linear_state_def del: map_of_append)

lemma map_of_linear_state_Output:
  "map_of (linear_state Output l) (Output kd) = Some (param kd l)"
  by (cases kd) (simp_all add: linear_state_def)

lemma map_of_linear_state_Output_Hidden:
  "map_of (linear_state Output l) (Hidden j kd) = None"
  by (simp add: linear_state_def)

lemma map_of_state_dict_Hidden:
  "map_of (state_dict m) (Hidden j kd) =
     (if j < length (hidden_layers m)
      then Some (param kd (hidden_layers m ! j))
      else None)"
  by (simp add: state_dict_def map_of_hidden_state map_of_linear_state_Output_Hidden
      del: map_of_append)

lemma map_of_state_dict_Output:
  "map_of (state_dict m) (Output kd) =
     Some (param kd (output_layer m))"
  by (simp add: state_dict_def map_of_hidden_state_Output map_of_linear_state_Output
      del: map_of_append)

lemma keys_hidden_state:
  "map fst (hidden_state i ls) =
     concat (map (\<lambda>j. [Hidden j Weight, Hidden j Bias]) [i..<i + length ls])"
proof (induction ls arbitrary: i)
  case Nil
  then show ?case by simp
next
  case (Cons l ls)
  have "[i..<i + length (l # ls)] = i # [Suc i..<Suc i + length ls]"
    by (simp add: upt_rec)
  with Cons.IH [of "Suc i"] show ?case by (simp add: linear_state_def)
qed

lemma keys_state_dict:
  "map fst (state_dict m) =
     concat (map (\<lambda>j. [Hidden j Weight, Hidden j Bias]) [0..<length (hidden_layers m)])
     @ [Output Weight, Output Bias]"
  by (simp add: state_dict_def keys_hidden_state linear_state_def)

lemma size_mismatches_append:
  "size_mismatches (a @ b) sd = size_mismatches a sd @ size_mismatches b sd"
  by (simp add: size_mismatches_def)

lemma load_linear_copy:
  assumes "has_shape c (in_features c) (out_features c)"
    and "map_of sd (pre Weight) = Some (weight c)" and "map_of sd (pre Bias) = Some (bias c)"
  shows "load_linear sd pre (nn_Linear rng (in_features c) (out_features c)) = c"
    and "size_mismatches (linear_state pre (nn_Linear rng (in_features c) (out_features c))) sd = []"
  using assms
  by (simp_all add: load_linear_def load_param_def nn_Linear_def shape_randn has_shape_def
      size_mismatches_def linear_state_def)


lemma load_hidden_copy:
  assumes "list_all (\<lambda>l. has_shape l (in_features l) (out_features l)) cs"
    and "\<And>j kd. j < length cs \<Longrightarrow> map_of sd (Hidden (i + j) kd) = Some (param kd (cs ! j))"
  shows "load_hidden sd i (map (\<lambda>l. nn_Linear rng (in_features l) (out_features l)) cs) = cs
       \<and> size_mismatches (hidden_state i (map (\<lambda>l. nn_Linear rng (in_features l) (out_features l)) cs)) sd = []"
  using assms
proof (induction cs arbitrary: i)
  case Nil
  then show ?case by (simp add: size_mismatches_def)
next
  case (Cons c cs)
  from Cons.prems(1) have c: "has_shape c (in_features c) (out_features c)"
    and cs: "list_all (\<lambda>l. has_shape l (in_features l) (out_features l)) cs" by simp_all
  have w: "map_of sd (Hidden i Weight) = Some (weight c)"
    using Cons.prems(2) [of 0 Weight] by simp
  have b: "map_of sd (Hidden i Bias) = Some (bias c)"
    using Cons.prems(2) [of 0 Bias] by simp
  have rest: "map_of sd (Hidden (Suc i + j) kd) = Some (param kd (cs ! j))" if "j < length cs" for j kd
    using Cons.prems(2) [of "Suc j" kd] that by simp
  from Cons.IH [OF cs rest] load_linear_copy [OF c w b, of rng]
  show ?case by (simp add: size_mismatches_append)
qed

lemma filter_nil: "(\<And>x. x \<in> set xs \<Longrightarrow> \<not> P x) \<Longrightarrow> filter P xs = []"
  by (induction xs) auto

lemma roundtrip_load_state_dict:
  assumes shapes: "list_all (\<lambda>l. has_shape l (in_features l) (out_features l)) (layers C)"
    and fresh: "layers F = map (\<lambda>l. nn_Linear rng (in_features l) (out_features l)) (layers C)"
  shows "load_state_dict F (state_dict C)
           = (F\<lparr>hidden_layers := hidden_layers C, output_layer := output_layer C\<rparr>, Inr ())"
proof -
  let ?mk = "\<lambda>l. nn_Linear rng (in_features l) (out_features l)"
  from fresh have len: "length (hidden_layers F) = length (hidden_layers C)"
    using arg_cong [OF fresh, of length] by (simp add: layers_def)
  from fresh have "butlast (layers F) = butlast (map ?mk (layers C))" by simp
  then have hF: "hidden_layers F = map ?mk (hidden_layers C)"
    by (simp add: layers_def map_butlast [symmetric])
  from fresh have "last (layers F) = last (map ?mk (layers C))" by simp
  then have oF: "output_layer F = ?mk (output_layer C)"
    by (simp add: layers_def last_map)
  from shapes have sh: "list_all (\<lambda>l. has_shape l (in_features l) (out_features l)) (hidden_layers C)"
    and so: "has_shape (output_layer C) (in_features (output_layer C)) (out_features (output_layer C))"
    by (simp_all add: layers_def)
  have look: "map_of (state_dict C) (Hidden (0 + j) kd) = Some (param kd (hidden_layers C ! j))"
    if "j < length (hidden_layers C)" for j kd
    using that by (simp add: map_of_state_dict_Hidden)
  from load_hidden_copy [OF sh look, of rng] have
    hid: "load_hidden (state_dict C) 0 (hidden_layers F) = hidden_layers C"
    and hmis: "size_mismatches (hidden_state 0 (hidden_layers F)) (state_dict C) = []"
    by (simp_all add: hF)
  have ow: "map_of (state_dict C) (Output Weight) = Some (weight (output_layer C))"
    and ob: "map_of (state_dict C) (Output Bias) = Some (bias (output_layer C))"
    using map_of_state_dict_Output [of C Weight] map_of_state_dict_Output [of C Bias] by simp_all
  from load_linear_copy [OF so ow ob, of rng] have
    out: "load_linear (state_dict C) Output (output_layer F) = output_layer C"
    and omis: "size_mismatches (linear_state Output (output_layer F)) (state_dict C) = []"
    by (simp_all add: oF)
  have mis: "size_mismatches (state_dict F) (state_dict C) = []"
    by (simp add: state_dict_def [of F] size_mismatches_append hmis omis)
  have keys: "map fst (state_dict F) = map fst (state_dict C)"
    by (simp add: keys_state_dict len)
  have missing: "filter (\<lambda>k. map_of (state_dict C) k = None) (map fst (state_dict F)) = []"
    unfolding keys by (rule filter_nil) (simp add: map_of_eq_None_iff)
  have unexpected: "filter (\<lambda>k. k \<notin> set (map fst (state_dict F))) (map fst (state_dict C)) = []"
    unfolding keys by (rule filter_nil) simp
  have "error_msgs F (state_dict C) = []"
    unfolding error_msgs_def Let_def missing unexpected mis by simp
  then show ?thesis
    by (simp add: load_state_dict_def hid out)
qed


lemma chained_zip:
  "chained (l # ls) \<Longrightarrow>
     zip (in_features l # map out_features (l # ls)) (map out_features (l # ls))
       = map (\<lambda>l. (in_features l, out_features l)) (l # ls)"
  by (induction ls arbitrary: l) simp_all

lemma chained_pairs:
  "chained (map (\<lambda>(a, b). nn_Linear rng a b) (zip xs (tl xs)))"
proof (induction xs rule: induct_list012)
  case (3 x y zs)
  then show ?case by (cases zs) (simp_all add: nn_Linear_def)
qed simp_all

lemma map_snd_pairs: "map snd (zip xs (tl xs)) = tl xs"
  by (simp add: map_snd_zip_take)

lemma map_fst_pairs: "map fst (zip xs (tl xs)) = butlast xs"
  by (simp add: map_fst_zip_take butlast_conv_take)

lemma in_features_pairs:
  "map in_features (map (\<lambda>(a, b). nn_Linear rng a b) (zip xs (tl xs))) = butlast xs"
proof -
  have "map in_features (map (\<lambda>(a, b). nn_Linear rng a b) (zip xs (tl xs))) = map fst (zip xs (tl xs))"
    by (simp add: nn_Linear_def case_prod_beta)
  then show ?thesis by (simp only: map_fst_pairs)
qed

lemma out_features_pairs:
  "map out_features (map (\<lambda>(a, b). nn_Linear rng a b) (zip xs (tl xs))) = tl xs"
proof -
  have "map out_features (map (\<lambda>(a, b). nn_Linear rng a b) (zip xs (tl xs))) = map snd (zip xs (tl xs))"
    by (simp add: nn_Linear_def case_prod_beta)
  then show ?thesis by (simp only: map_snd_pairs)
qed

lemma shapes_pairs:
  "list_all (\<lambda>l. has_shape l (in_features l) (out_features l))
     (map (\<lambda>(a, b). nn_Linear rng a b) ps)"
  by (induction ps) (auto simp: has_shape_def nn_Linear_def shape_randn)

lemma Network_features:
  assumes "Network rng input_size output_size hidden_sizes drop_p = Inr m"
  shows "map in_features (layers m) = map nat (input_size # hidden_sizes)"
    and "map out_features (layers m) = map nat (hidden_sizes @ [output_size])"
    and "list_all (\<lambda>l. has_shape l (in_features l) (out_features l)) (layers m)"
    and "chained (layers m)"
    and "0 < input_size" and "0 < output_size" and "\<forall>h \<in> set hidden_sizes. 0 < h"
    and "dropout m = drop_p" and "training m"
proof -
  from assms have pos: "0 < input_size" "0 < output_size" "\<forall>h \<in> set hidden_sizes. 0 < h"
    by (auto simp: Network_def Let_def split: if_splits)
  let ?sizes = "map nat ([input_size] @ hidden_sizes @ [output_size])"
  from Network_Inr [OF pos, of rng drop_p] assms have
    L: "layers m = map (\<lambda>(a, b). nn_Linear rng a b) (zip ?sizes (tl ?sizes))"
    and d: "dropout m = drop_p" "training m" by auto
  show "map in_features (layers m) = map nat (input_size # hidden_sizes)"
    unfolding L in_features_pairs by (simp add: butlast_append)
  show "map out_features (layers m) = map nat (hidden_sizes @ [output_size])"
    unfolding L out_features_pairs by simp
  show "list_all (\<lambda>l. has_shape l (in_features l) (out_features l)) (layers m)"
    unfolding L by (rule shapes_pairs)
  show "chained (layers m)" unfolding L by (rule chained_pairs)
  show "0 < input_size" "0 < output_size" "\<forall>h \<in> set hidden_sizes. 0 < h"
    "dropout m = drop_p" "training m" by (fact pos d)+
qed

lemma Network_hidden_sizes:
  assumes "Network rng input_size output_size hidden_sizes drop_p = Inr m"
  shows "map (\<lambda>each. int (out_features each)) (hidden_layers m) = hidden_sizes"
proof -
  have "map out_features (hidden_layers m) = butlast (map out_features (layers m))"
    by (simp add: layers_def)
  also have "\<dots> = map nat hidden_sizes"
    by (simp add: Network_features(2) [OF assms] butlast_append)
  finally have "map int (map out_features (hidden_layers m)) = map int (map nat hidden_sizes)"
    by simp
  moreover have "map int (map nat hidden_sizes) = hidden_sizes"
    using Network_features(7) [OF assms] by (induction hidden_sizes) simp_all
  ultimately show ?thesis by (simp add: comp_def)
qed

lemma wf_Network:
  assumes "Network rng input_size output_size hidden_sizes drop_p = Inr m"
  shows "wf_network m" and "net_input_size m = nat input_size"
    and "net_output_size m = nat output_size"
proof -
  note f = Network_features [OF assms]
  have ins: "\<forall>l \<in> set (layers m). 0 < in_features l"
  proof
    fix l assume "l \<in> set (layers m)"
    then have "in_features l \<in> set (map in_features (layers m))" by simp
    with f(1,5,7) show "0 < in_features l" by auto
  qed
  have outs: "\<forall>l \<in> set (layers m). 0 < out_features l"
  proof
    fix l assume "l \<in> set (layers m)"
    then have "out_features l \<in> set (map out_features (layers m))" by simp
    with f(2,6,7) show "0 < out_features l" by auto
  qed
  from f(3,4) ins outs show "wf_network m"
    by (simp add: wf_network_def list_all_iff)
  have "hd (map in_features (layers m)) = nat input_size" by (simp add: f(1))
  then show "net_input_size m = nat input_size"
    by (simp add: net_input_size_def hd_map layers_nonempty)
  have "last (map out_features (layers m)) = nat output_size" by (simp add: f(2))
  then show "net_output_size m = nat output_size"
    by (simp add: net_output_size_def layers_def)
qed

lemma torch_load_save: "torch_load (torch_save obj f fs) f = Inr obj"
  by (simp add: torch_load_def torch_save_def)

lemma load_save_checkpoint:
  assumes "wf_network C" and "net_input_size C = 784" and "net_output_size C = 10"
  shows "load_checkpoint rng (save_checkpoint C fs) ''checkpoint.pth''
           = Inr (C\<lparr>dropout := default_drop_p, training := True\<rparr>)"
proof -
  let ?hs = "map (\<lambda>each. int (out_features each)) (hidden_layers C)"
  let ?mk = "\<lambda>l. nn_Linear rng (in_features l) (out_features l)"
  from assms(1) have shapes: "list_all (\<lambda>l. has_shape l (in_features l) (out_features l)) (layers C)"
    and pos: "\<forall>l \<in> set (layers C). 0 < out_features l"
    and ch: "chained (layers C)"
    by (auto simp: wf_network_def list_all_iff)
  from pos have hpos: "\<forall>h \<in> set ?hs. 0 < h" by (auto simp: layers_def)
  from Network_Inr [of 784 10 ?hs rng default_drop_p] hpos obtain F where
    F: "Network rng 784 10 ?hs default_drop_p = Inr F"
    and LF: "layers F = map (\<lambda>(a, b). nn_Linear rng a b)
                (zip (map nat ([784] @ ?hs @ [10])) (tl (map nat ([784] @ ?hs @ [10]))))"
    and dF: "dropout F = default_drop_p" "training F = True"
    by auto
  obtain l ls where lls: "layers C = l # ls" using layers_nonempty [of C] by (cases "layers C") auto
  have "map out_features (layers C) = map out_features (hidden_layers C) @ [10]"
    using assms(3) by (simp add: layers_def net_output_size_def)
  then have outs: "map out_features (l # ls) = map out_features (hidden_layers C) @ [10]"
    by (simp only: lls)
  have "in_features l = 784" using assms(2) lls by (simp add: net_input_size_def)
  then have sizes: "map nat ([784] @ ?hs @ [10]) = in_features l # map out_features (l # ls)"
    by (simp only: outs) (simp add: comp_def)
  from ch lls have "zip (in_features l # map out_features (l # ls)) (map out_features (l # ls))
       = map (\<lambda>l. (in_features l, out_features l)) (l # ls)"
    by (simp only: chained_zip)
  with sizes lls have "layers F = map ?mk (layers C)"
    unfolding LF by (simp add: comp_def)
  from roundtrip_load_state_dict [OF shapes this] have
    "load_state_dict F (state_dict C)
       = (F\<lparr>hidden_layers := hidden_layers C, output_layer := output_layer C\<rparr>, Inr ())" .
  moreover have "F\<lparr>hidden_layers := hidden_layers C, output_layer := output_layer C\<rparr>
       = C\<lparr>dropout := default_drop_p, training := True\<rparr>"
    using dF by simp
  ultimately show ?thesis
    by (simp add: load_checkpoint_def save_checkpoint_def torch_load_save F Let_def)
qed


lemma hidden_forward_eval:
  "hidden_forward ls k p False keep x = hidden_forward ls k' p' False keep' x"
  by (induction ls arbitrary: k k' x) (simp_all add: F_dropout_def split: sum.splits)

lemma forward_eval_mode:
  assumes "hidden_layers m' = hidden_layers m" and "output_layer m' = output_layer m"
  shows "forward (eval_mode m') keep' x = forward (eval_mode m) keep x"
  using assms hidden_forward_eval [of "hidden_layers m" 0 "dropout m'" keep' x 0 "dropout m" keep]
  by (simp add: forward_def eval_mode_def cong: sum.case_cong)

text \<open>
  Claim C1, as amended. The cell that writes the checkpoint records the literals 784
  and 10 as the two sizes. For every well-formed classifier \<open>C\<close> whose input size is
  784 and whose output size is 10, loading the record that \<open>save_checkpoint\<close> wrote for
  \<open>C\<close> succeeds and yields a classifier with the same input size, output size, hidden
  sizes and parameters, whose evaluation-mode forward output equals that of \<open>C\<close> on
  every input batch.
\<close>

theorem checkpoint_round_trip:
  assumes "wf_network C" and "net_input_size C = 784" and "net_output_size C = 10"
  shows "\<exists>C'. load_checkpoint rng (save_checkpoint C fs) ''checkpoint.pth'' = Inr C'
           \<and> net_input_size C' = net_input_size C
           \<and> net_output_size C' = net_output_size C
           \<and> net_hidden_sizes C' = net_hidden_sizes C
           \<and> state_dict C' = state_dict C
           \<and> (\<forall>x keep keep'. forward (eval_mode C') keep' x = forward (eval_mode C) keep x)"
proof -
  let ?C' = "C\<lparr>dropout := default_drop_p, training := True\<rparr>"
  have "load_checkpoint rng (save_checkpoint C fs) ''checkpoint.pth'' = Inr ?C'"
    using assms by (rule load_save_checkpoint)
  moreover have "forward (eval_mode ?C') keep' x = forward (eval_mode C) keep x" for x keep keep'
    by (rule forward_eval_mode) simp_all
  ultimately show ?thesis
    by (simp add: net_input_size_def net_output_size_def net_hidden_sizes_def layers_def
        state_dict_def)
qed


theorem checkpoint_round_trip_witness:
  "\<exists>C. Network real 784 10 [2] (1 / 5) = Inr C \<and> wf_network C
       \<and> net_input_size C = 784 \<and> net_output_size C = 10
       \<and> (\<exists>C'. load_checkpoint real (save_checkpoint C (map_of [])) ''checkpoint.pth'' = Inr C'
              \<and> net_input_size C' = 784 \<and> net_output_size C' = 10
              \<and> net_hidden_sizes C' = net_hidden_sizes C
              \<and> state_dict C' = state_dict C
              \<and> forward (eval_mode C') (\<lambda>k n j. True) [] = forward (eval_mode C) (\<lambda>k n j. False) [])"
proof -
  obtain C where C: "Network real 784 10 [2] (1 / 5) = Inr C"
    using Network_Inr [of 784 10 "[2]" real "1 / 5"] by auto
  have wf: "wf_network C" and i: "net_input_size C = 784" and o: "net_output_size C = 10"
    using wf_Network [OF C] by simp_all
  from checkpoint_round_trip [OF wf i o, of real "map_of []"] C wf i o show ?thesis
    by auto
qed

text \<open>
  Without the restriction on the sizes the round trip fails: the classifier
  constructed as \<open>Network(2, 1, [])\<close> is saved under the sizes 784 and 10, and
  loading the record raises the size-mismatch error.
\<close>

theorem checkpoint_round_trip_counterexample:
  "Network real 2 1 [] (1 / 2)
     = Inr \<lparr>hidden_layers = [],
            output_layer = \<lparr>in_features = 2, out_features = 1,
                             weight = Tensor [1, 2] [0, 1], bias = Tensor [1] [0]\<rparr>,
            dropout = 1 / 2, training = True\<rparr>
   \<and> wf_network \<lparr>hidden_layers = [],
            output_layer = \<lparr>in_features = 2, out_features = 1,
                             weight = Tensor [1, 2] [0, 1], bias = Tensor [1] [0]\<rparr>,
            dropout = 1 / 2, training = True\<rparr>
   \<and> load_checkpoint real
        (save_checkpoint \<lparr>hidden_layers = [],
            output_layer = \<lparr>in_features = 2, out_features = 1,
                             weight = Tensor [1, 2] [0, 1], bias = Tensor [1] [0]\<rparr>,
            dropout = 1 / 2, training = True\<rparr> (map_of [])) ''checkpoint.pth''
     = Inl (RuntimeError [Size_mismatch (Output Weight) [1, 2] [10, 784],
                          Size_mismatch (Output Bias) [1] [10]])"
proof -
  have "[0..<2] = [0, Suc 0]" by (simp add: eval_nat_numeral)
  then have a: "Network real 2 1 [] (1 / 2)
     = Inr \<lparr>hidden_layers = [],
            output_layer = \<lparr>in_features = 2, out_features = 1,
                             weight = Tensor [1, 2] [0, 1], bias = Tensor [1] [0]\<rparr>,
            dropout = 1 / 2, training = True\<rparr>"
    by (simp add: Network_def nn_Linear_def randn_def)
  have b: "wf_network \<lparr>hidden_layers = [],
            output_layer = \<lparr>in_features = 2, out_features = 1,
                             weight = Tensor [1, 2] [0, 1], bias = Tensor [1] [0]\<rparr>,
            dropout = 1 / 2, training = True\<rparr>"
    by (simp add: wf_network_def layers_def has_shape_def)
  have c: "load_checkpoint real
        (save_checkpoint \<lparr>hidden_layers = [],
            output_layer = \<lparr>in_features = 2, out_features = 1,
                             weight = Tensor [1, 2] [0, 1], bias = Tensor [1] [0]\<rparr>,
            dropout = 1 / 2, training = True\<rparr> (map_of [])) ''checkpoint.pth''
     = Inl (RuntimeError [Size_mismatch (Output Weight) [1, 2] [10, 784],
                          Size_mismatch (Output Bias) [1] [10]])"
    by (simp add: load_checkpoint_def save_checkpoint_def torch_load_save Network_def
        nn_Linear_def shape_randn load_state_dict_def error_msgs_def state_dict_def
        linear_state_def size_mismatches_def Let_def)
  from a b c show ?thesis by simp
qed

lemma size_mismatch_mem:
  "(k, p) \<in> set own \<Longrightarrow> map_of sd k = Some t \<Longrightarrow> shape t \<noteq> shape p \<Longrightarrow>
     Size_mismatch k (shape t) (shape p) \<in> set (size_mismatches own sd)"
  by (force simp: size_mismatches_def)

text \<open>
  Claim C2. Let the file hold a checkpoint record whose recorded sizes are valid, so
  that they imply a target architecture. For every parameter \<open>k\<close> whose recorded tensor
  has a shape other than that of the target's parameter \<open>k\<close>, \<open>load_checkpoint\<close> raises
  the error of \<open>load_state_dict\<close>, and the error's lines include the one that names
  \<open>k\<close> with its recorded shape and the target shape. (The library's class for this
  error is \<^verbatim>\<open>RuntimeError\<close>.)
\<close>

theorem load_checkpoint_size_mismatch:
  assumes "torch_load fs filepath = Inr ckpt"
    and "Network rng (ckpt_input_size ckpt) (ckpt_output_size ckpt) (ckpt_hidden_layers ckpt)
           default_drop_p = Inr target"
    and "map_of (ckpt_state_dict ckpt) k = Some t"
    and "map_of (state_dict target) k = Some p"
    and "shape t \<noteq> shape p"
  shows "\<exists>msgs. load_checkpoint rng fs filepath = Inl (RuntimeError msgs)
             \<and> Size_mismatch k (shape t) (shape p) \<in> set msgs"
proof -
  from assms(4) have "(k, p) \<in> set (state_dict target)" by (rule map_of_SomeD)
  from size_mismatch_mem [OF this assms(3,5)]
  have mem: "Size_mismatch k (shape t) (shape p) \<in> set (error_msgs target (ckpt_state_dict ckpt))"
    by (simp add: error_msgs_def Let_def)
  then have "error_msgs target (ckpt_state_dict ckpt) \<noteq> []" by auto
  then have "load_checkpoint rng fs filepath
               = Inl (RuntimeError (error_msgs target (ckpt_state_dict ckpt)))"
    by (simp add: load_checkpoint_def assms(1,2) load_state_dict_def)
  with mem show ?thesis by blast
qed

theorem load_checkpoint_size_mismatch_witness:
  "torch_load (map_of [(''edited.pth'',
       \<lparr>ckpt_input_size = 2, ckpt_output_size = 1, ckpt_hidden_layers = [],
        ckpt_state_dict = [(Output Weight, Tensor [1, 3] [0, 0, 0]), (Output Bias, Tensor [1] [0])]\<rparr>)])
     ''edited.pth''
     = Inr \<lparr>ckpt_input_size = 2, ckpt_output_size = 1, ckpt_hidden_layers = [],
        ckpt_state_dict = [(Output Weight, Tensor [1, 3] [0, 0, 0]), (Output Bias, Tensor [1] [0])]\<rparr>
   \<and> Network real 2 1 [] default_drop_p
       = Inr \<lparr>hidden_layers = [], output_layer = nn_Linear real 2 1,
              dropout = default_drop_p, training = True\<rparr>
   \<and> shape (Tensor [1, 3] [0, 0, 0]) \<noteq> shape (weight (nn_Linear real 2 1))
   \<and> (\<exists>msgs. load_checkpoint real (map_of [(''edited.pth'',
       \<lparr>ckpt_input_size = 2, ckpt_output_size = 1, ckpt_hidden_layers = [],
        ckpt_state_dict = [(Output Weight, Tensor [1, 3] [0, 0, 0]), (Output Bias, Tensor [1] [0])]\<rparr>)])
          ''edited.pth'' = Inl (RuntimeError msgs)
        \<and> Size_mismatch (Output Weight) [1, 3] [1, 2] \<in> set msgs)"
proof -
  let ?ckpt = "\<lparr>ckpt_input_size = 2, ckpt_output_size = 1, ckpt_hidden_layers = [],
        ckpt_state_dict = [(Output Weight, Tensor [1, 3] [0, 0, 0]), (Output Bias, Tensor [1] [0])]\<rparr>"
  let ?target = "\<lparr>hidden_layers = [], output_layer = nn_Linear real 2 1,
              dropout = default_drop_p, training = True\<rparr>"
  have 1: "torch_load (map_of [(''edited.pth'', ?ckpt)]) ''edited.pth'' = Inr ?ckpt"
    by (simp add: torch_load_def)
  have 2: "Network real (ckpt_input_size ?ckpt) (ckpt_output_size ?ckpt) (ckpt_hidden_layers ?ckpt)
             default_drop_p = Inr ?target"
    by (simp add: Network_def)
  have 3: "map_of (ckpt_state_dict ?ckpt) (Output Weight) = Some (Tensor [1, 3] [0, 0, 0])"
    by simp
  have 4: "map_of (state_dict ?target) (Output Weight) = Some (weight (nn_Linear real 2 1))"
    by (simp add: state_dict_def linear_state_def)
  have 5: "shape (Tensor [1, 3] [0, 0, 0]) \<noteq> shape (weight (nn_Linear real 2 1))"
    by (simp add: nn_Linear_def shape_randn)
  from load_checkpoint_size_mismatch [OF 1 2 3 4 5] 1 2 5 show ?thesis
    by (simp add: nn_Linear_def shape_randn)
qed


lemma Network_shapes:
  assumes "Network rng input_size output_size hidden_sizes drop_p = Inr m"
  shows "map (\<lambda>l. (shape (weight l), shape (bias l))) (layers m)
           = map (\<lambda>(a, b). ([b, a], [b]))
               (zip (map nat ([input_size] @ hidden_sizes @ [output_size]))
                    (tl (map nat ([input_size] @ hidden_sizes @ [output_size]))))"
proof -
  note f = Network_features [OF assms]
  from Network_Inr [OF f(5,6,7), of rng drop_p] assms have
    "layers m = map (\<lambda>(a, b). nn_Linear rng a b)
        (zip (map nat ([input_size] @ hidden_sizes @ [output_size]))
             (tl (map nat ([input_size] @ hidden_sizes @ [output_size]))))"
    by auto
  then show ?thesis
    by (simp add: nn_Linear_def shape_randn case_prod_beta comp_def)
qed

text \<open>
  Claim C4. A successful construction from \<open>(input_size, output_size, hidden_sizes)\<close>
  allocates exactly one affine layer per consecutive pair \<open>(a, b)\<close> of
  \<open>[input_size] + hidden_sizes + [output_size]\<close>, with features \<open>a \<rightarrow> b\<close>, weight shape
  \<open>(b, a)\<close> and bias shape \<open>(b)\<close>. In particular \<open>Network(784, 10, [512, 256, 128])\<close> has
  exactly 4 affine layers, with weight shapes (512,784), (256,512), (128,256), (10,128)
  and bias lengths 512, 256, 128, 10.
\<close>

theorem construction_allocates_layers:
  "(Network rng input_size output_size hidden_sizes drop_p = Inr m \<longrightarrow>
      length (layers m) = length hidden_sizes + 1
      \<and> map (\<lambda>l. (in_features l, out_features l)) (layers m)
          = zip (map nat ([input_size] @ hidden_sizes @ [output_size]))
                (tl (map nat ([input_size] @ hidden_sizes @ [output_size])))
      \<and> map (\<lambda>l. (shape (weight l), shape (bias l))) (layers m)
          = map (\<lambda>(a, b). ([b, a], [b]))
              (zip (map nat ([input_size] @ hidden_sizes @ [output_size]))
                   (tl (map nat ([input_size] @ hidden_sizes @ [output_size])))))
   \<and> (\<exists>m'. Network rng 784 10 [512, 256, 128] drop_p = Inr m'
          \<and> length (layers m') = 4
          \<and> map (\<lambda>l. shape (weight l)) (layers m') = [[512, 784], [256, 512], [128, 256], [10, 128]]
          \<and> map (\<lambda>l. shape (bias l)) (layers m') = [[512], [256], [128], [10]])"
proof (intro conjI impI)
  assume N: "Network rng input_size output_size hidden_sizes drop_p = Inr m"
  note f = Network_features [OF N]
  from arg_cong [OF f(2), of length] show "length (layers m) = length hidden_sizes + 1"
    by simp
  from Network_Inr [OF f(5,6,7), of rng drop_p] N have
    "layers m = map (\<lambda>(a, b). nn_Linear rng a b)
        (zip (map nat ([input_size] @ hidden_sizes @ [output_size]))
             (tl (map nat ([input_size] @ hidden_sizes @ [output_size]))))"
    by auto
  then show "map (\<lambda>l. (in_features l, out_features l)) (layers m)
          = zip (map nat ([input_size] @ hidden_sizes @ [output_size]))
                (tl (map nat ([input_size] @ hidden_sizes @ [output_size])))"
    by (simp add: nn_Linear_def case_prod_beta comp_def)
  show "map (\<lambda>l. (shape (weight l), shape (bias l))) (layers m)
          = map (\<lambda>(a, b). ([b, a], [b]))
              (zip (map nat ([input_size] @ hidden_sizes @ [output_size]))
                   (tl (map nat ([input_size] @ hidden_sizes @ [output_size]))))"
    using N by (rule Network_shapes)
next
  obtain m' where m': "Network rng 784 10 [512, 256, 128] drop_p = Inr m'"
    using Network_Inr [of 784 10 "[512, 256, 128]" rng drop_p] by auto
  from Network_shapes [OF m'] have
    sh: "map (\<lambda>l. (shape (weight l), shape (bias l))) (layers m')
           = [([512, 784], [512]), ([256, 512], [256]), ([128, 256], [128]), ([10, 128], [10])]"
    by simp
  from arg_cong [OF sh, of length] have "length (layers m') = 4" by simp
  moreover from arg_cong [OF sh, of "map fst"] have
    "map (\<lambda>l. shape (weight l)) (layers m') = [[512, 784], [256, 512], [128, 256], [10, 128]]"
    by (simp add: comp_def)
  moreover from arg_cong [OF sh, of "map snd"] have
    "map (\<lambda>l. shape (bias l)) (layers m') = [[512], [256], [128], [10]]"
    by (simp add: comp_def)
  ultimately show "\<exists>m'. Network rng 784 10 [512, 256, 128] drop_p = Inr m'
          \<and> length (layers m') = 4
          \<and> map (\<lambda>l. shape (weight l)) (layers m') = [[512, 784], [256, 512], [128, 256], [10, 128]]
          \<and> map (\<lambda>l. shape (bias l)) (layers m') = [[512], [256], [128], [10]]"
    using m' by (intro exI [of _ m']) simp
qed

theorem construction_allocates_layers_witness:
  "Network real 3 1 [2] (1 / 2)
     = Inr \<lparr>hidden_layers = [nn_Linear real 3 2], output_layer = nn_Linear real 2 1,
            dropout = 1 / 2, training = True\<rparr>
   \<and> length (layers \<lparr>hidden_layers = [nn_Linear real 3 2], output_layer = nn_Linear real 2 1,
            dropout = 1 / 2, training = True\<rparr>) = 2
   \<and> map (\<lambda>l. (shape (weight l), shape (bias l)))
        (layers \<lparr>hidden_layers = [nn_Linear real 3 2], output_layer = nn_Linear real 2 1,
            dropout = 1 / 2, training = True\<rparr>) = [([2, 3], [2]), ([1, 2], [1])]"
proof -
  have N: "Network real 3 1 [2] (1 / 2)
     = Inr \<lparr>hidden_layers = [nn_Linear real 3 2], output_layer = nn_Linear real 2 1,
            dropout = 1 / 2, training = True\<rparr>"
    by (simp add: Network_def)
  from construction_allocates_layers [of real 3 1 "[2]" "1 / 2"
      "\<lparr>hidden_layers = [nn_Linear real 3 2], output_layer = nn_Linear real 2 1,
            dropout = 1 / 2, training = True\<rparr>"] N
  show ?thesis by simp
qed

lemma out_features_load_hidden:
  "map out_features (load_hidden sd i ls) = map out_features ls"
  by (induction ls arbitrary: i) (simp_all add: load_linear_def)

text \<open>
  Claim C5. For every classifier, as constructed or after its parameters have been
  overwritten from any state dict, the checkpoint that \<open>save_checkpoint\<close> writes records
  as hidden sizes the \<open>out_features\<close> of every layer except the last, in layer order,
  and this sequence is the \<open>hidden_sizes\<close> passed at construction.
\<close>

theorem checkpoint_records_hidden_sizes:
  assumes "Network rng input_size output_size hidden_sizes drop_p = Inr m"
    and "m' = m \<or> m' = fst (load_state_dict m sd)"
  shows "\<exists>c. torch_load (save_checkpoint m' fs) ''checkpoint.pth'' = Inr c
           \<and> ckpt_hidden_layers c = map (\<lambda>each. int (out_features each)) (butlast (layers m'))
           \<and> ckpt_hidden_layers c = hidden_sizes"
proof -
  from assms(2) have "map out_features (hidden_layers m') = map out_features (hidden_layers m)"
    by (auto simp: load_state_dict_def out_features_load_hidden)
  then have "map int (map out_features (hidden_layers m')) = map int (map out_features (hidden_layers m))"
    by simp
  then have "map (\<lambda>each. int (out_features each)) (hidden_layers m') = hidden_sizes"
    using Network_hidden_sizes [OF assms(1)] by (simp add: comp_def)
  then show ?thesis
    by (simp add: save_checkpoint_def torch_load_save Let_def layers_def)
qed

theorem checkpoint_records_hidden_sizes_witness:
  "Network real 3 1 [2] (1 / 2)
     = Inr \<lparr>hidden_layers = [nn_Linear real 3 2], output_layer = nn_Linear real 2 1,
            dropout = 1 / 2, training = True\<rparr>
   \<and> (\<exists>c. torch_load (save_checkpoint \<lparr>hidden_layers = [nn_Linear real 3 2],
              output_layer = nn_Linear real 2 1, dropout = 1 / 2, training = True\<rparr> (map_of []))
            ''checkpoint.pth'' = Inr c
          \<and> ckpt_hidden_layers c = [2])"
proof -
  have N: "Network real 3 1 [2] (1 / 2)
     = Inr \<lparr>hidden_layers = [nn_Linear real 3 2], output_layer = nn_Linear real 2 1,
            dropout = 1 / 2, training = True\<rparr>"
    by (simp add: Network_def)
  from checkpoint_records_hidden_sizes [OF N, of _ "[]" "map_of []"] N show ?thesis
    by blast
qed

text \<open>
  Claim C6. Whatever record a file holds, a classifier returned by \<open>load_checkpoint\<close>
  has the default dropout rate 0.5: the record has no dropout rate to read. This is so
  even for the record saved from a classifier constructed with another \<open>drop_p\<close>, which
  loads successfully.
\<close>

theorem loaded_classifier_has_default_dropout:
  "(load_checkpoint rng fs filepath = Inr m \<longrightarrow> dropout m = 1 / 2)
   \<and> (Network rng' 784 10 hidden_sizes drop_p = Inr C \<longrightarrow>
        dropout C = drop_p
        \<and> (\<exists>C'. load_checkpoint rng (save_checkpoint C fs) ''checkpoint.pth'' = Inr C'
               \<and> dropout C' = 1 / 2))"
proof (intro conjI impI)
  assume L: "load_checkpoint rng fs filepath = Inr m"
  then obtain ckpt where c: "torch_load fs filepath = Inr ckpt"
    by (auto simp: load_checkpoint_def split: sum.splits)
  with L obtain F where
    F: "Network rng (ckpt_input_size ckpt) (ckpt_output_size ckpt) (ckpt_hidden_layers ckpt)
          default_drop_p = Inr F"
    by (auto simp: load_checkpoint_def split: sum.splits)
  with L c have "m = fst (load_state_dict F (ckpt_state_dict ckpt))"
    by (auto simp: load_checkpoint_def split: sum.splits prod.splits)
  with Network_features(8) [OF F] show "dropout m = 1 / 2"
    by (simp add: load_state_dict_def default_drop_p_def)
next
  assume N: "Network rng' 784 10 hidden_sizes drop_p = Inr C"
  from Network_features(8) [OF N] show "dropout C = drop_p" .
  from wf_Network [OF N] have "wf_network C" "net_input_size C = 784" "net_output_size C = 10"
    by simp_all
  from load_save_checkpoint [OF this, of rng fs]
  show "\<exists>C'. load_checkpoint rng (save_checkpoint C fs) ''checkpoint.pth'' = Inr C'
               \<and> dropout C' = 1 / 2"
    by (simp add: default_drop_p_def)
qed

theorem loaded_classifier_has_default_dropout_witness:
  "\<exists>C. Network real 784 10 [3] (1 / 5) = Inr C \<and> dropout C = 1 / 5
       \<and> (\<exists>C'. load_checkpoint real (save_checkpoint C (map_of [])) ''checkpoint.pth'' = Inr C'
              \<and> dropout C' = 1 / 2)"
proof -
  obtain C where C: "Network real 784 10 [3] (1 / 5) = Inr C"
    using Network_Inr [of 784 10 "[3]" real "1 / 5"] by auto
  with loaded_classifier_has_default_dropout [of real "map_of []" "''checkpoint.pth''" C real "[3]" "1 / 5" C]
  show ?thesis by blast
qed

text \<open>
  Claim C8. Construction fails with \<open>ConfigurationError\<close> if \<open>input_size\<close> or
  \<open>output_size\<close> is not positive or if some entry of \<open>hidden_sizes\<close> is not positive;
  the error is the result of the constructor itself, no classifier is returned.
\<close>

theorem construction_rejects_bad_sizes:
  assumes "input_size \<le> 0 \<or> output_size \<le> 0 \<or> (\<exists>h \<in> set hidden_sizes. h \<le> 0)"
  shows "Network rng input_size output_size hidden_sizes drop_p = Inl ConfigurationError"
  using assms by (simp add: Network_def)

theorem construction_rejects_bad_sizes_witness:
  "(784 \<le> (0::int) \<or> 10 \<le> (0::int) \<or> (\<exists>h \<in> set [512, 0, 128]. h \<le> (0::int)))
   \<and> Network real 784 10 [512, 0, 128] (1 / 2) = Inl ConfigurationError"
  using construction_rejects_bad_sizes [of 784 10 "[512, 0, 128]" real "1 / 2"] by simp

lemma shape_load_param: "shape (load_param sd k p) = shape p"
  by (simp add: load_param_def split: option.splits)

lemma load_linear_features:
  "in_features (load_linear sd pre l) = in_features l"
  "out_features (load_linear sd pre l) = out_features l"
  "has_shape (load_linear sd pre l) a b = has_shape l a b"
  by (simp_all add: load_linear_def has_shape_def shape_load_param)

lemma load_hidden_features:
  "map in_features (load_hidden sd i ls) = map in_features ls"
  "map out_features (load_hidden sd i ls) = map out_features ls"
  by (induction ls arbitrary: i) (simp_all add: load_linear_features)

lemma load_hidden_shapes:
  "list_all (\<lambda>l. has_shape l (in_features l) (out_features l)
                \<and> 0 < in_features l \<and> 0 < out_features l) (load_hidden sd i ls)
   = list_all (\<lambda>l. has_shape l (in_features l) (out_features l)
                \<and> 0 < in_features l \<and> 0 < out_features l) ls"
  by (induction ls arbitrary: i) (simp_all add: load_linear_features)

lemma chained_features:
  "chained ls \<longleftrightarrow> tl (map in_features ls) = butlast (map out_features ls)"
  by (induction ls rule: induct_list012) auto

lemma wf_load_state_dict:
  assumes "wf_network m"
  shows "wf_network (fst (load_state_dict m sd))"
proof -
  let ?m' = "fst (load_state_dict m sd)"
  have L: "layers ?m' = load_hidden sd 0 (hidden_layers m) @ [load_linear sd Output (output_layer m)]"
    by (simp add: load_state_dict_def layers_def)
  have "map in_features (layers ?m') = map in_features (layers m)"
    and "map out_features (layers ?m') = map out_features (layers m)"
    by (simp_all add: L load_hidden_features load_linear_features layers_def [of m])
  then have "chained (layers ?m') = chained (layers m)"
    by (simp only: chained_features)
  moreover have "list_all (\<lambda>l. has_shape l (in_features l) (out_features l)
                \<and> 0 < in_features l \<and> 0 < out_features l) (layers ?m')
     = list_all (\<lambda>l. has_shape l (in_features l) (out_features l)
                \<and> 0 < in_features l \<and> 0 < out_features l) (layers m)"
    by (simp add: L load_hidden_shapes load_linear_features layers_def [of m])
  ultimately show ?thesis using assms by (simp only: wf_network_def)
qed

lemma F_dropout_rows:
  "length (F_dropout x p tr keep) = length x"
  "\<forall>row \<in> set x. length row = n \<Longrightarrow> \<forall>row \<in> set (F_dropout x p tr keep). length row = n"
  by (auto simp: F_dropout_def in_set_enumerate_eq)

lemma hidden_forward_rows:
  assumes "list_all (\<lambda>l. has_shape l (in_features l) (out_features l)) ls"
    and "chained (ls @ [lo])"
    and "\<forall>row \<in> set x. length row = in_features (hd (ls @ [lo]))"
  shows "\<exists>h. hidden_forward ls k p tr keep x = Inr h \<and> length h = length x
            \<and> (\<forall>row \<in> set h. length row = in_features lo)"
  using assms
proof (induction ls arbitrary: x k)
  case Nil
  then show ?case by simp
next
  case (Cons l ls)
  from Cons.prems(1) have l: "has_shape l (in_features l) (out_features l)"
    and ls: "list_all (\<lambda>l. has_shape l (in_features l) (out_features l)) ls" by simp_all
  obtain l' rest where next_layer: "ls @ [lo] = l' # rest" by (cases "ls @ [lo]") auto
  with Cons.prems(2) have ch: "in_features l' = out_features l" "chained (ls @ [lo])"
    by simp_all
  from Cons.prems(3) have "\<forall>row \<in> set x. length row = in_features l" by simp
  from linear_relu_step [OF l this] obtain y where
    y: "F_linear x (weight l) (bias l) = Inr y" "length y = length x"
       "\<forall>row \<in> set y. length row = out_features l" by blast
  let ?z = "F_dropout (F_relu y) p tr (keep k)"
  have z: "length ?z = length x" "\<forall>row \<in> set ?z. length row = in_features (hd (ls @ [lo]))"
    using F_dropout_rows(2) [OF F_relu_rows [OF y(3)], of p tr "keep k"] ch(1) next_layer
    by (simp_all add: F_dropout_rows(1) F_relu_length(1) y(2))
  from Cons.IH [OF ls ch(2) z(2), of "Suc k"] z(1) y(1) show ?case by simp
qed

text \<open>
  The classifier's own forward pass is normalised in the same way, in training and in
  evaluation mode, on every batch of the width the first layer expects.
\<close>

lemma forward_normalised:
  assumes "wf_network m" and "\<forall>row \<in> set x. length row = net_input_size m"
  shows "\<exists>out. forward m keep x = Inr out \<and> length out = length x
              \<and> (\<forall>row \<in> set out. length row = net_output_size m \<and> sum_list (map exp row) = 1)"
proof -
  let ?lo = "output_layer m"
  from assms(1) have sh: "list_all (\<lambda>l. has_shape l (in_features l) (out_features l)) (hidden_layers m)"
    and lo: "has_shape ?lo (in_features ?lo) (out_features ?lo)" "0 < out_features ?lo"
    and ch: "chained (hidden_layers m @ [?lo])"
    by (auto simp: wf_network_def layers_def list_all_iff)
  from assms(2) have "\<forall>row \<in> set x. length row = in_features (hd (hidden_layers m @ [?lo]))"
    by (simp add: net_input_size_def layers_def)
  from hidden_forward_rows [OF sh ch this, of 0 "dropout m" "training m" keep] obtain h where
    h: "hidden_forward (hidden_layers m) 0 (dropout m) (training m) keep x = Inr h"
       "length h = length x" "\<forall>row \<in> set h. length row = in_features ?lo" by blast
  from linear_relu_step [OF lo(1) h(3)] obtain z where
    z: "F_linear h (weight ?lo) (bias ?lo) = Inr z" "length z = length h"
       "\<forall>row \<in> set z. length row = out_features ?lo" by blast
  have out: "forward m keep x = Inr (map log_softmax z)"
    by (simp add: forward_def h(1) z(1) F_log_softmax_def)
  have "length row = net_output_size m \<and> sum_list (map exp row) = 1"
    if "row \<in> set (map log_softmax z)" for row
  proof -
    from that obtain r where r: "r \<in> set z" "row = log_softmax r" by auto
    with z(3) lo(2) have "r \<noteq> []" "length r = out_features ?lo" by auto
    with r(2) show ?thesis
      by (simp add: log_softmax_normalised length_log_softmax net_output_size_def)
  qed
  with out z(2) h(2) show ?thesis by simp
qed

end
